theory Spec2Isabelle
  imports Complex_Main "HOL-Library.Log_Nat"
begin

section \<open>JavaScript values used by the calculator\<close>

text \<open>
  The component \<^verbatim>\<open>Calculator.jsx\<close> keeps its operands as JavaScript strings and
  computes on JavaScript numbers (IEEE 754 binary64). A string is modelled as a list of
  code units; every string the component can hold consists of code units below 256
  (digits, \<^verbatim>\<open>. - + e\<close>, the words \<^verbatim>\<open>Error\<close>, \<^verbatim>\<open>NaN\<close>, \<^verbatim>\<open>Infinity\<close>, and the operator
  signs U+00D7 and U+00F7), so a code unit is a \<^typ>\<open>char\<close>.

  A number is NaN, an infinity, negative zero, or a finite double given by its exact
  rational value (\<open>Fin 0\<close> is positive zero).
\<close>

datatype jsnum = NaN | PosInf | NegInf | NegZero | Fin rat

text \<open>\<open>ipow b k\<close> is \<open>b\<close> to the integer power \<open>k\<close>, as a rational.\<close>

definition ipow :: "nat \<Rightarrow> int \<Rightarrow> rat" where
  "ipow b k = (if 0 \<le> k then of_nat b ^ nat k else 1 / of_nat b ^ nat (- k))"

text \<open>For \<open>0 < x\<close>, \<open>floor_exp b x\<close> is the largest \<open>e\<close> with \<open>b ^ e \<le> x\<close>.\<close>

definition floor_exp :: "nat \<Rightarrow> rat \<Rightarrow> int" where
  "floor_exp b x =
     (let (p, q) = quotient_of x;
          e0 = int (floorlog b (nat p)) - int (floorlog b (nat q))
      in if ipow b e0 \<le> x then e0 else e0 - 1)"

definition round_half_even :: "rat \<Rightarrow> int" where
  "round_half_even x =
     (let f = \<lfloor>x\<rfloor>; d = x - of_int f
      in if d < 1 / 2 then f
         else if 1 / 2 < d then f + 1
         else if even f then f else f + 1)"

text \<open>
  \<open>fl x\<close> is the Number value for the real \<open>x\<close>: the nearest double, ties to the even
  significand, with 53 bits of precision, exponents from \<open>-1022\<close> (subnormals
  included) to \<open>1023\<close>, overflow to an infinity and underflow to a signed zero.
\<close>

definition fl :: "rat \<Rightarrow> jsnum" where
  "fl x =
     (if x = 0 then Fin 0
      else
        let a = \<bar>x\<bar>;
            e = max (floor_exp 2 a) (- 1022);
            u = ipow 2 (e - 52);
            n = round_half_even (a / u)
        in if 1023 < e \<or> (e = 1023 \<and> n = 2 ^ 53) then (if 0 < x then PosInf else NegInf)
           else if n = 0 then (if 0 < x then Fin 0 else NegZero)
           else Fin (if 0 < x then of_int n * u else - (of_int n * u)))"

definition is_nan :: "jsnum \<Rightarrow> bool" where
  "is_nan a = (a = NaN)"

definition is_inf :: "jsnum \<Rightarrow> bool" where
  "is_inf a = (a = PosInf \<or> a = NegInf)"

text \<open>\<^verbatim>\<open>b === 0\<close> holds for both zeros.\<close>

definition is_zero :: "jsnum \<Rightarrow> bool" where
  "is_zero a = (a = NegZero \<or> a = Fin 0)"

fun is_neg :: "jsnum \<Rightarrow> bool" where
  "is_neg NegInf = True"
| "is_neg NegZero = True"
| "is_neg (Fin q) = (q < 0)"
| "is_neg _ = False"

fun rat_of :: "jsnum \<Rightarrow> rat" where
  "rat_of (Fin q) = q"
| "rat_of _ = 0"

fun js_neg :: "jsnum \<Rightarrow> jsnum" where
  "js_neg NaN = NaN"
| "js_neg PosInf = NegInf"
| "js_neg NegInf = PosInf"
| "js_neg NegZero = Fin 0"
| "js_neg (Fin q) = (if q = 0 then NegZero else Fin (- q))"

text \<open>The operators \<^verbatim>\<open>+ - * /\<close> on numbers (Number::add, subtract, multiply, divide).\<close>

definition js_add :: "jsnum \<Rightarrow> jsnum \<Rightarrow> jsnum" where
  "js_add a b =
     (if is_nan a \<or> is_nan b then NaN
      else if is_inf a \<and> is_inf b then (if a = b then a else NaN)
      else if is_inf a then a
      else if is_inf b then b
      else if a = NegZero \<and> b = NegZero then NegZero
      else fl (rat_of a + rat_of b))"

definition js_sub :: "jsnum \<Rightarrow> jsnum \<Rightarrow> jsnum" where
  "js_sub a b = js_add a (js_neg b)"

definition js_mul :: "jsnum \<Rightarrow> jsnum \<Rightarrow> jsnum" where
  "js_mul a b =
     (if is_nan a \<or> is_nan b then NaN
      else if is_inf a \<or> is_inf b then
        (if is_zero a \<or> is_zero b then NaN
         else if is_neg a \<noteq> is_neg b then NegInf else PosInf)
      else if is_zero a \<or> is_zero b then
        (if is_neg a \<noteq> is_neg b then NegZero else Fin 0)
      else fl (rat_of a * rat_of b))"

definition js_div :: "jsnum \<Rightarrow> jsnum \<Rightarrow> jsnum" where
  "js_div a b =
     (if is_nan a \<or> is_nan b then NaN
      else if is_inf a then
        (if is_inf b then NaN
         else if is_neg a \<noteq> is_neg b then NegInf else PosInf)
      else if is_inf b then
        (if is_neg a \<noteq> is_neg b then NegZero else Fin 0)
      else if is_zero b then
        (if is_zero a then NaN
         else if is_neg a \<noteq> is_neg b then NegInf else PosInf)
      else if is_zero a then
        (if is_neg a \<noteq> is_neg b then NegZero else Fin 0)
      else fl (rat_of a / rat_of b))"

subsection \<open>Numbers to strings\<close>

definition digit_char :: "nat \<Rightarrow> char" where
  "digit_char d = char_of (48 + d)"

fun digits_of :: "nat \<Rightarrow> string" where
  "digits_of n =
     (if n < 10 then [digit_char n]
      else digits_of (n div 10) @ [digit_char (n mod 10)])"

declare digits_of.simps [simp del]

text \<open>
  Number::toString picks integers \<open>n\<close>, \<open>k\<close>, \<open>s\<close> with \<open>k\<close> digits in \<open>s\<close>, such that
  \<open>s * 10 ^ (n - k)\<close> rounds to the number and \<open>k\<close> is as small as possible; among
  several \<open>s\<close> the one closest to the number. \<open>shortest x n0 k\<close> searches from \<open>k\<close>
  digits upwards, for \<open>10 ^ (n0 - 1) \<le> x < 10 ^ n0\<close>, and returns \<open>(n, s)\<close>. The two
  candidates with \<open>k\<close> digits are the neighbours of \<open>x\<close> on the grid of step
  \<open>10 ^ (n0 - k)\<close>. Seventeen digits identify every double, so the search ends there.
\<close>

function shortest :: "rat \<Rightarrow> int \<Rightarrow> nat \<Rightarrow> int \<times> nat" where
  "shortest x n0 k =
     (let sc = ipow 10 (n0 - int k);
          lo = nat \<lfloor>x / sc\<rfloor>;
          hi = lo + 1;
          okl = (fl (of_nat lo * sc) = Fin x);
          okh = (fl (of_nat hi * sc) = Fin x);
          dl = x - of_nat lo * sc;
          dh = of_nat hi * sc - x;
          pick_lo = (dl < dh \<or> (dl = dh \<and> even lo))
      in if (okl \<and> okh \<and> pick_lo) \<or> (okl \<and> \<not> okh) \<or> (\<not> okh \<and> 17 \<le> k \<and> pick_lo)
         then (n0, lo)
         else if okh \<or> 17 \<le> k then (if hi = 10 ^ k then (n0 + 1, 10 ^ (k - 1)) else (n0, hi))
         else shortest x n0 (k + 1))"
  by pat_completeness auto
termination
  by (relation "measure (\<lambda>(x, n0, k). 17 - k)") auto

declare shortest.simps [simp del]

text \<open>Number::toString for a positive finite number: the layout of the digits.\<close>

definition number_to_string_pos :: "rat \<Rightarrow> string" where
  "number_to_string_pos x =
     (let (n, s) = shortest x (floor_exp 10 x + 1) 1;
          ds = digits_of s;
          k = int (length ds)
      in if k \<le> n \<and> n \<le> 21 then ds @ replicate (nat (n - k)) CHR ''0''
         else if 0 < n \<and> n \<le> 21 then take (nat n) ds @ ''.'' @ drop (nat n) ds
         else if - 6 < n \<and> n \<le> 0 then ''0.'' @ replicate (nat (- n)) CHR ''0'' @ ds
         else
           let e = n - 1;
               c = (if e < 0 then ''-'' else ''+'');
               d = digits_of (nat \<bar>e\<bar>)
           in if k = 1 then ds @ ''e'' @ c @ d
              else [hd ds] @ ''.'' @ tl ds @ ''e'' @ c @ d)"

text \<open>\<^verbatim>\<open>String(x)\<close> for a number \<open>x\<close>.\<close>

fun number_to_string :: "jsnum \<Rightarrow> string" where
  "number_to_string NaN = ''NaN''"
| "number_to_string PosInf = ''Infinity''"
| "number_to_string NegInf = ''-Infinity''"
| "number_to_string NegZero = ''0''"
| "number_to_string (Fin q) =
     (if q = 0 then ''0''
      else if q < 0 then ''-'' @ number_to_string_pos (- q)
      else number_to_string_pos q)"

text \<open>
  \<^verbatim>\<open>x.toPrecision(p)\<close> for \<open>1 \<le> p \<le> 100\<close>: \<open>p\<close> significant digits, the digits
  rounded half up, in exponential notation when the exponent is below \<open>-6\<close> or at
  least \<open>p\<close>.
\<close>

definition to_precision :: "jsnum \<Rightarrow> nat \<Rightarrow> string" where
  "to_precision a p =
     (if is_nan a \<or> is_inf a then number_to_string a
      else
        let s = (if rat_of a < 0 then ''-'' else '''');
            x = \<bar>rat_of a\<bar>;
            e0 = floor_exp 10 x;
            n0 = nat \<lfloor>x / ipow 10 (e0 - int p + 1) + 1 / 2\<rfloor>;
            (e, m) = (if x = 0 then (0, replicate p CHR ''0'')
                      else if n0 = 10 ^ p then (e0 + 1, digits_of (10 ^ (p - 1)))
                      else (e0, digits_of n0))
        in if e < - 6 \<or> int p \<le> e then
             s @ (if p \<noteq> 1 then [hd m] @ ''.'' @ tl m else m) @ ''e''
               @ (if 0 < e then ''+'' else ''-'') @ digits_of (nat \<bar>e\<bar>)
           else if e = int p - 1 then s @ m
           else if 0 \<le> e then s @ take (nat (e + 1)) m @ ''.'' @ drop (nat (e + 1)) m
           else s @ ''0.'' @ replicate (nat (- (e + 1))) CHR ''0'' @ m)"

subsection \<open>Strings to numbers\<close>

text \<open>White space and line terminators among the code units below 256.\<close>

definition is_ws :: "char \<Rightarrow> bool" where
  "is_ws c = (of_char c \<in> {9, 10, 11, 12, 13, 32, 160 :: nat})"

definition is_digit :: "char \<Rightarrow> bool" where
  "is_digit c = (48 \<le> (of_char c :: nat) \<and> (of_char c :: nat) \<le> 57)"

text \<open>The value of a digit in a radix up to 16; \<open>None\<close> when it is not one.\<close>

definition digit_value :: "nat \<Rightarrow> char \<Rightarrow> nat option" where
  "digit_value radix c =
     (let n = (of_char c :: nat);
          v = (if 48 \<le> n \<and> n \<le> 57 then Some (n - 48)
               else if 97 \<le> n \<and> n \<le> 102 then Some (n - 87)
               else if 65 \<le> n \<and> n \<le> 70 then Some (n - 55)
               else None)
      in case v of None \<Rightarrow> None | Some d \<Rightarrow> if d < radix then Some d else None)"

definition nat_of_digits :: "nat \<Rightarrow> string \<Rightarrow> nat" where
  "nat_of_digits radix ds = foldl (\<lambda>a c. radix * a + (case digit_value radix c of None \<Rightarrow> 0 | Some d \<Rightarrow> d)) 0 ds"

text \<open>
  An optional ExponentPart at the head of a string: its value and the rest. With no
  well-formed exponent nothing is consumed.
\<close>

definition parse_exponent :: "string \<Rightarrow> int \<times> string" where
  "parse_exponent s =
     (if s \<noteq> [] \<and> (hd s = CHR ''e'' \<or> hd s = CHR ''E'') then
        let r = tl s;
            signed = (r \<noteq> [] \<and> (hd r = CHR ''+'' \<or> hd r = CHR ''-''));
            r1 = (if signed then tl r else r);
            ds = takeWhile is_digit r1;
            v = int (nat_of_digits 10 ds)
        in if ds = [] then (0, s)
           else (if signed \<and> hd r = CHR ''-'' then - v else v, dropWhile is_digit r1)
      else (0, s))"

text \<open>
  The longest prefix that is a StrUnsignedDecimalLiteral (\<^verbatim>\<open>Infinity\<close>, or digits with
  an optional fraction and exponent): its Number value, and the rest of the string.
  The exact decimal value is rounded once.
\<close>

definition parse_unsigned :: "string \<Rightarrow> (jsnum \<times> string) option" where
  "parse_unsigned s =
     (if take 8 s = ''Infinity'' then Some (PosInf, drop 8 s)
      else
        let ip = takeWhile is_digit s;
            r1 = dropWhile is_digit s;
            dot = (r1 \<noteq> [] \<and> hd r1 = CHR ''.'');
            fp = (if dot then takeWhile is_digit (tl r1) else []);
            r2 = (if dot then dropWhile is_digit (tl r1) else r1)
        in if ip = [] \<and> fp = [] then None
           else
             let (ex, r3) = parse_exponent r2
             in Some (fl (of_nat (nat_of_digits 10 (ip @ fp)) * ipow 10 (ex - int (length fp))), r3))"

definition parse_decimal :: "string \<Rightarrow> (jsnum \<times> string) option" where
  "parse_decimal s =
     (if s \<noteq> [] \<and> hd s = CHR ''+'' then parse_unsigned (tl s)
      else if s \<noteq> [] \<and> hd s = CHR ''-'' then
        (case parse_unsigned (tl s) of None \<Rightarrow> None | Some (v, r) \<Rightarrow> Some (js_neg v, r))
      else parse_unsigned s)"

text \<open>\<^verbatim>\<open>parseFloat(s)\<close>: leading white space is skipped, trailing text is ignored.\<close>

definition parseFloat :: "string \<Rightarrow> jsnum" where
  "parseFloat s =
     (case parse_decimal (dropWhile is_ws s) of None \<Rightarrow> NaN | Some (v, r) \<Rightarrow> v)"

text \<open>
  \<^verbatim>\<open>Number(s)\<close> for a string: the whole string, white space trimmed at both ends, must
  be empty, a decimal literal, or an unsigned literal in radix 16, 8 or 2.
\<close>

definition radix_literal :: "nat \<Rightarrow> string \<Rightarrow> jsnum" where
  "radix_literal radix ds =
     (if ds \<noteq> [] \<and> (\<forall>c \<in> set ds. digit_value radix c \<noteq> None)
      then fl (of_nat (nat_of_digits radix ds)) else NaN)"

definition js_Number :: "string \<Rightarrow> jsnum" where
  "js_Number s =
     (let t = rev (dropWhile is_ws (rev (dropWhile is_ws s)))
      in if t = [] then Fin 0
         else if take 2 t = ''0x'' \<or> take 2 t = ''0X'' then radix_literal 16 (drop 2 t)
         else if take 2 t = ''0o'' \<or> take 2 t = ''0O'' then radix_literal 8 (drop 2 t)
         else if take 2 t = ''0b'' \<or> take 2 t = ''0B'' then radix_literal 2 (drop 2 t)
         else (case parse_decimal t of
                 None \<Rightarrow> NaN
               | Some (v, r) \<Rightarrow> if r = [] then v else NaN))"

subsection \<open>String methods\<close>

definition startsWith :: "string \<Rightarrow> string \<Rightarrow> bool" where
  "startsWith s p = (take (length p) s = p)"

definition endsWith :: "string \<Rightarrow> string \<Rightarrow> bool" where
  "endsWith s p = (length p \<le> length s \<and> drop (length s - length p) s = p)"

definition includes_str :: "string \<Rightarrow> string \<Rightarrow> bool" where
  "includes_str s p = (\<exists>i \<in> set [0 ..< Suc (length s)]. take (length p) (drop i s) = p)"

text \<open>
  \<^verbatim>\<open>s.replace(/\.?0+$/, "")\<close>: the zeros at the end of the string are removed, with
  the point before them when there is one; a string that does not end in a zero is
  unchanged.
\<close>

definition strip_zeros :: "string \<Rightarrow> string" where
  "strip_zeros s =
     (let r = rev s;
          rest = dropWhile (\<lambda>c. c = CHR ''0'') r
      in if r = [] \<or> hd r \<noteq> CHR ''0'' then s
         else if rest \<noteq> [] \<and> hd rest = CHR ''.'' then rev (tl rest)
         else rev rest)"

section \<open>The calculator\<close>

text \<open>
  The five state variables of the component (\<^verbatim>\<open>useState\<close>, lines 13 to 17):
  \<^verbatim>\<open>null\<close> is \<open>None\<close>.
\<close>

record calc =
  currentValue :: string
  previousValue :: "string option"
  operator :: "string option"
  overwrite :: bool
  error :: bool

text \<open>The operator signs of the keypad: U+00D7 and U+00F7 for times and divide.\<close>

definition times_sign :: string where
  "times_sign = [CHR 0xD7]"

definition divide_sign :: string where
  "divide_sign = [CHR 0xF7]"

definition initial :: calc where
  "initial = \<lparr>currentValue = ''0'', previousValue = None, operator = None,
     overwrite = False, error = False\<rparr>"

text \<open>\<^verbatim>\<open>sanitizeNumberString\<close> (lines 27 to 37).\<close>

definition sanitizeNumberString :: "string \<Rightarrow> string" where
  "sanitizeNumberString str =
     (if str = [] then ''0''
      else if str = ''0'' then ''0''
      else if startsWith str ''0'' \<and> \<not> startsWith str ''0.'' \<and> 1 < length str
        then number_to_string (js_Number str)
      else str)"

text \<open>\<^verbatim>\<open>compute\<close> (lines 39 to 57).\<close>

definition compute :: "string \<Rightarrow> string \<Rightarrow> string \<Rightarrow> string" where
  "compute aStr bStr op =
     (let a = parseFloat aStr;
          b = parseFloat bStr
      in if is_nan a \<or> is_nan b then ''0''
         else if op = ''+'' then number_to_string (js_add a b)
         else if op = ''-'' then number_to_string (js_sub a b)
         else if op = times_sign then number_to_string (js_mul a b)
         else if op = divide_sign then
           (if is_zero b then ''Error'' else number_to_string (js_div a b))
         else bStr)"

text \<open>\<^verbatim>\<open>resetAll\<close> (lines 59 to 65) and \<^verbatim>\<open>onClear\<close> (lines 68 to 70).\<close>

definition resetAll :: "calc \<Rightarrow> calc" where
  "resetAll s = s\<lparr>currentValue := ''0'', previousValue := None, operator := None,
     overwrite := False, error := False\<rparr>"

definition onClear :: "calc \<Rightarrow> calc" where
  "onClear s = resetAll s"

text \<open>\<^verbatim>\<open>onBackspace\<close> (lines 72 to 87); \<^verbatim>\<open>val.slice(0, -1)\<close> is \<open>butlast val\<close>.\<close>

definition onBackspace :: "calc \<Rightarrow> calc" where
  "onBackspace s =
     (if error s then resetAll s
      else if overwrite s then s\<lparr>currentValue := ''0'', overwrite := False\<rparr>
      else s\<lparr>currentValue :=
        (let val = currentValue s
         in if length val \<le> 1 then ''0''
            else let next = butlast val in if next = ''-'' then ''0'' else next)\<rparr>)"

text \<open>
  \<^verbatim>\<open>onDigit\<close> (lines 89 to 108). The keypad and the keyboard handler pass the digit as
  a string, so \<^verbatim>\<open>String(d)\<close> is \<open>d\<close>.
\<close>

definition onDigit :: "string \<Rightarrow> calc \<Rightarrow> calc" where
  "onDigit d s =
     (if error s then
        s\<lparr>error := False, currentValue := d, overwrite := False,
          previousValue := None, operator := None\<rparr>
      else if overwrite s then s\<lparr>overwrite := False, currentValue := d\<rparr>
      else s\<lparr>currentValue :=
        (let val = currentValue s;
             next = (if val = ''0'' then d else val @ d)
         in sanitizeNumberString next)\<rparr>)"

text \<open>\<^verbatim>\<open>onDecimal\<close> (lines 110 to 127).\<close>

definition onDecimal :: "calc \<Rightarrow> calc" where
  "onDecimal s =
     (if error s then
        s\<lparr>error := False, currentValue := ''0.'', overwrite := False,
          previousValue := None, operator := None\<rparr>
      else if overwrite s then s\<lparr>overwrite := False, currentValue := ''0.''\<rparr>
      else s\<lparr>currentValue :=
        (let val = currentValue s
         in if includes_str val ''.'' then val else val @ ''.'')\<rparr>)"

text \<open>The error state that \<^verbatim>\<open>onOperator\<close> and \<^verbatim>\<open>onEquals\<close> enter on \<^verbatim>\<open>"Error"\<close>.\<close>

definition enterError :: "calc \<Rightarrow> calc" where
  "enterError s = s\<lparr>error := True, currentValue := ''Error'', previousValue := None,
     operator := None, overwrite := True\<rparr>"

text \<open>\<^verbatim>\<open>onOperator\<close> (lines 129 to 153).\<close>

definition onOperator :: "string \<Rightarrow> calc \<Rightarrow> calc" where
  "onOperator op s =
     (if error s then s
      else
        case (previousValue s, operator s) of
          (Some prev, Some oper) \<Rightarrow>
            if \<not> overwrite s then
              (let result = compute prev (currentValue s) oper
               in if result = ''Error'' then enterError s
                  else s\<lparr>previousValue := Some result, currentValue := result,
                    operator := Some op, overwrite := True\<rparr>)
            else s\<lparr>previousValue := Some (currentValue s), operator := Some op,
              overwrite := True\<rparr>
        | _ \<Rightarrow> s\<lparr>previousValue := Some (currentValue s), operator := Some op,
            overwrite := True\<rparr>)"

text \<open>\<^verbatim>\<open>onEquals\<close> (lines 155 to 174).\<close>

definition onEquals :: "calc \<Rightarrow> calc" where
  "onEquals s =
     (if error s then resetAll s
      else
        case (previousValue s, operator s) of
          (Some prev, Some oper) \<Rightarrow>
            (let result = compute prev (currentValue s) oper
             in if result = ''Error'' then enterError s
                else s\<lparr>currentValue := result, previousValue := None, operator := None,
                  overwrite := True\<rparr>)
        | _ \<Rightarrow> s)"

text \<open>\<^verbatim>\<open>displayValue\<close> (lines 227 to 242).\<close>

definition displayValue :: "calc \<Rightarrow> string" where
  "displayValue s =
     (if error s then ''Error''
      else
        let val = currentValue s
        in if endsWith val ''.'' then val
           else
             let val' = sanitizeNumberString val;
                 num = js_Number val'
             in if 14 < length val' \<and> \<not> is_nan num
                then strip_zeros (to_precision num 10)
                else val')"

subsection \<open>Inputs and reachable states\<close>

text \<open>
  The events the keypad (lines 257 to 307) and the keyboard handler (lines 177 to 219)
  deliver: a digit key, the point, one of the four operator signs, equals, clear and
  backspace.
\<close>

datatype input = Digit string | Decimal | Operator string | Equals | Clear | Backspace

fun step :: "calc \<Rightarrow> input \<Rightarrow> calc" where
  "step s (Digit d) = onDigit d s"
| "step s Decimal = onDecimal s"
| "step s (Operator op) = onOperator op s"
| "step s Equals = onEquals s"
| "step s Clear = onClear s"
| "step s Backspace = onBackspace s"

definition digit_keys :: "string list" where
  "digit_keys = map (\<lambda>c. [c]) ''0123456789''"

definition operator_keys :: "string list" where
  "operator_keys = [''+'', ''-'', times_sign, divide_sign]"

fun valid_input :: "input \<Rightarrow> bool" where
  "valid_input (Digit d) = (d \<in> set digit_keys)"
| "valid_input (Operator op) = (op \<in> set operator_keys)"
| "valid_input _ = True"

definition run :: "calc \<Rightarrow> input list \<Rightarrow> calc" where
  "run s inputs = foldl step s inputs"

text \<open>The states the component can be in: those a list of events leads to.\<close>

inductive reachable :: "calc \<Rightarrow> bool" where
  reachable_initial: "reachable initial"
| reachable_step: "reachable s \<Longrightarrow> valid_input i \<Longrightarrow> reachable (step s i)"

text \<open>The keys that type an entry: the digits and the point.\<close>

fun entry_key :: "input \<Rightarrow> bool" where
  "entry_key (Digit d) = (d \<in> set digit_keys)"
| "entry_key Decimal = True"
| "entry_key _ = False"

text \<open>
  The strings that \<^verbatim>\<open>sanitizeNumberString\<close> returns as they are: not empty, and
  with no leading zero other than in \<open>0\<close> itself or before a point.
\<close>

definition canonical :: "string \<Rightarrow> bool" where
  "canonical str = (str \<noteq> [] \<and> (str = ''0'' \<or> \<not> startsWith str ''0'' \<or> startsWith str ''0.''))"

subsection \<open>compute on arbitrary values\<close>

text \<open>
  JavaScript does not type the parameters of \<^verbatim>\<open>compute\<close>. The primitive values are
  modelled (an object is not: its conversion to a string runs the object's own code).
  An exception is a value of its own.
\<close>

datatype jsval = Undefined | Null | Bool bool | Num jsnum | BigInt int | Str string | Symbol

datatype exn = TypeError

text \<open>The abstract operation ToString, which \<^verbatim>\<open>parseFloat\<close> applies to its argument.\<close>

fun js_ToString :: "jsval \<Rightarrow> exn + string" where
  "js_ToString Undefined = Inr ''undefined''"
| "js_ToString Null = Inr ''null''"
| "js_ToString (Bool b) = Inr (if b then ''true'' else ''false'')"
| "js_ToString (Num n) = Inr (number_to_string n)"
| "js_ToString (BigInt i) = Inr (if i < 0 then ''-'' @ digits_of (nat (- i)) else digits_of (nat i))"
| "js_ToString (Str s) = Inr s"
| "js_ToString Symbol = Inl TypeError"

text \<open>
  \<^verbatim>\<open>compute\<close> (lines 39 to 57) on arbitrary values: the two calls of \<^verbatim>\<open>parseFloat\<close>
  may throw, \<^verbatim>\<open>switch\<close> compares with \<^verbatim>\<open>===\<close>, and the default case returns the
  second argument as it was passed.
\<close>

definition compute_js :: "jsval \<Rightarrow> jsval \<Rightarrow> jsval \<Rightarrow> exn + jsval" where
  "compute_js aStr bStr op =
     (case js_ToString aStr of
        Inl e \<Rightarrow> Inl e
      | Inr sa \<Rightarrow>
          (case js_ToString bStr of
             Inl e \<Rightarrow> Inl e
           | Inr sb \<Rightarrow>
               let a = parseFloat sa;
                   b = parseFloat sb
               in if is_nan a \<or> is_nan b then Inr (Str ''0'')
                  else if op = Str ''+'' then Inr (Str (number_to_string (js_add a b)))
                  else if op = Str ''-'' then Inr (Str (number_to_string (js_sub a b)))
                  else if op = Str times_sign then Inr (Str (number_to_string (js_mul a b)))
                  else if op = Str divide_sign then
                    (if is_zero b then Inr (Str ''Error'')
                     else Inr (Str (number_to_string (js_div a b))))
                  else Inr bStr))"

text \<open>
  The strings that parse as a number: after leading white space and an optional sign,
  the word \<^verbatim>\<open>Infinity\<close>, a digit, or a point followed by a digit.
\<close>

fun starts_unsigned :: "string \<Rightarrow> bool" where
  "starts_unsigned [] = False"
| "starts_unsigned [c] = is_digit c"
| "starts_unsigned (c # d # r) =
     (take 8 (c # d # r) = ''Infinity'' \<or> is_digit c \<or> (c = CHR ''.'' \<and> is_digit d))"

definition starts_number :: "string \<Rightarrow> bool" where
  "starts_number s =
     (let t = dropWhile is_ws s
      in if t \<noteq> [] \<and> (hd t = CHR ''+'' \<or> hd t = CHR ''-'') then starts_unsigned (tl t)
         else starts_unsigned t)"

section \<open>Evaluation on concrete operands\<close>

lemmas handler_defs = onDigit_def onDecimal_def onOperator_def onEquals_def onClear_def
  onBackspace_def resetAll_def enterError_def initial_def run_def Let_def

lemma compute_2_plus_3: "compute ''2'' ''3'' ''+'' = ''5''"
  by code_simp

lemma compute_5_times_4: "compute ''5'' ''4'' times_sign = ''20''"
  by code_simp

lemma compute_5_div_0: "compute ''5'' ''0'' divide_sign = ''Error''"
  by code_simp

lemma reachable_run: "reachable s \<Longrightarrow> list_all valid_input is \<Longrightarrow> reachable (run s is)"
proof (induction "is" arbitrary: s)
  case Nil
  then show ?case by (simp add: run_def)
next
  case (Cons i "is")
  from Cons.prems have "reachable (step s i)" by (simp add: reachable_step)
  with Cons show ?case by (simp add: run_def)
qed

lemma run_5_div_0:
  "run initial [Digit ''5'', Operator divide_sign, Digit ''0''] =
     \<lparr>currentValue = ''0'', previousValue = Some ''5'', operator = Some divide_sign,
       overwrite = False, error = False\<rparr>"
  by (simp add: handler_defs sanitizeNumberString_def startsWith_def)

lemma run_5_div_0_equals:
  "run initial [Digit ''5'', Operator divide_sign, Digit ''0'', Equals] =
     \<lparr>currentValue = ''Error'', previousValue = None, operator = None,
       overwrite = True, error = True\<rparr>"
  by (simp add: handler_defs sanitizeNumberString_def startsWith_def compute_5_div_0)

lemma reachable_5_div_0:
  "reachable (run initial [Digit ''5'', Operator divide_sign, Digit ''0''])"
  by (rule reachable_run [OF reachable_initial]) (simp add: digit_keys_def operator_keys_def)

lemma reachable_5_div_0_equals:
  "reachable (run initial [Digit ''5'', Operator divide_sign, Digit ''0'', Equals])"
  by (rule reachable_run [OF reachable_initial]) (simp add: digit_keys_def operator_keys_def)

section \<open>Operator and equals in the error state\<close>

text \<open>
  C1, as stated: in every reachable state with \<open>error\<close> set, an operator key and
  the equals key both leave the state unchanged. The equals key does not: after
  \<^verbatim>\<open>5 \<div> 0 =\<close> the component is in the error state, and one more \<^verbatim>\<open>=\<close> takes it to the
  initial state (\<^verbatim>\<open>onEquals\<close> calls \<^verbatim>\<open>resetAll\<close>, lines 156 to 159).
\<close>

theorem errored_equals_changes_state:
  "reachable (run initial [Digit ''5'', Operator divide_sign, Digit ''0'', Equals]) \<and>
   error (run initial [Digit ''5'', Operator divide_sign, Digit ''0'', Equals]) \<and>
   onEquals (run initial [Digit ''5'', Operator divide_sign, Digit ''0'', Equals]) \<noteq>
     run initial [Digit ''5'', Operator divide_sign, Digit ''0'', Equals]"
  using reachable_5_div_0_equals
  by (simp add: run_5_div_0_equals onEquals_def resetAll_def)

text \<open>
  C1, amended: in every state with \<open>error\<close> set (so in every reachable one), an
  operator key leaves the state unchanged, and the equals key resets the state to the
  initial one.
\<close>

theorem errored_operator_noop_equals_resets:
  "error s \<Longrightarrow> onOperator op s = s \<and> onEquals s = initial"
  by (simp add: onOperator_def onEquals_def resetAll_def initial_def)

theorem errored_operator_noop_equals_resets_witness:
  "error (run initial [Digit ''5'', Operator divide_sign, Digit ''0'', Equals]) \<and>
   onOperator ''+'' (run initial [Digit ''5'', Operator divide_sign, Digit ''0'', Equals]) =
     run initial [Digit ''5'', Operator divide_sign, Digit ''0'', Equals] \<and>
   onEquals (run initial [Digit ''5'', Operator divide_sign, Digit ''0'', Equals]) = initial"
proof -
  have e: "error (run initial [Digit ''5'', Operator divide_sign, Digit ''0'', Equals])"
    by (simp add: run_5_div_0_equals)
  from errored_operator_noop_equals_resets [OF e, of "''+''"] e show ?thesis
    by blast
qed

text \<open>
  C2: in every state with \<open>error\<close> set, the equals key resets every field to its
  initial value, exactly as the clear key does.
\<close>

theorem errored_equals_is_clear:
  "error s \<Longrightarrow>
     onEquals s = \<lparr>currentValue = ''0'', previousValue = None, operator = None,
       overwrite = False, error = False\<rparr> \<and>
     onEquals s = onClear s"
  by (simp add: onEquals_def onClear_def resetAll_def)

theorem errored_equals_is_clear_witness:
  "error \<lparr>currentValue = ''Error'', previousValue = None, operator = None,
       overwrite = True, error = True\<rparr> \<and>
   onEquals \<lparr>currentValue = ''Error'', previousValue = None, operator = None,
       overwrite = True, error = True\<rparr> =
     \<lparr>currentValue = ''0'', previousValue = None, operator = None,
       overwrite = False, error = False\<rparr> \<and>
   onEquals \<lparr>currentValue = ''Error'', previousValue = None, operator = None,
       overwrite = True, error = True\<rparr> =
     onClear \<lparr>currentValue = ''Error'', previousValue = None, operator = None,
       overwrite = True, error = True\<rparr>"
proof -
  have e: "error \<lparr>currentValue = ''Error'', previousValue = None, operator = None,
      overwrite = True, error = True\<rparr>"
    by simp
  from errored_equals_is_clear [OF e] e show ?thesis
    by blast
qed

section \<open>Chained operations\<close>

text \<open>
  C3: from the initial state, the keys \<^verbatim>\<open>2 + 3 \<times>\<close> leave \<open>5\<close> (the sum) both as the
  entry and as the pending operand, with the times sign pending; the keys \<^verbatim>\<open>4 =\<close>
  that follow end with the entry \<open>20\<close>.
\<close>

theorem chained_2_plus_3_times_4:
  "run initial [Digit ''2'', Operator ''+'', Digit ''3''] =
     \<lparr>currentValue = ''3'', previousValue = Some ''2'', operator = Some ''+'',
       overwrite = False, error = False\<rparr> \<and>
   run initial [Digit ''2'', Operator ''+'', Digit ''3'', Operator times_sign] =
     \<lparr>currentValue = ''5'', previousValue = Some ''5'', operator = Some times_sign,
       overwrite = True, error = False\<rparr> \<and>
   run initial [Digit ''2'', Operator ''+'', Digit ''3'', Operator times_sign, Digit ''4''] =
     \<lparr>currentValue = ''4'', previousValue = Some ''5'', operator = Some times_sign,
       overwrite = False, error = False\<rparr> \<and>
   run initial [Digit ''2'', Operator ''+'', Digit ''3'', Operator times_sign, Digit ''4'',
       Equals] =
     \<lparr>currentValue = ''20'', previousValue = None, operator = None,
       overwrite = True, error = False\<rparr>"
  by (simp add: handler_defs sanitizeNumberString_def startsWith_def
      compute_2_plus_3 compute_5_times_4)

section \<open>Division by zero\<close>

lemma reachable_error_marker: "reachable s \<Longrightarrow> error s \<Longrightarrow> currentValue s = ''Error''"
proof (induction rule: reachable.induct)
  case reachable_initial
  then show ?case by (simp add: initial_def)
next
  case (reachable_step s i)
  then show ?case
    by (cases i) (auto simp: handler_defs split: option.splits if_splits)
qed

lemma divide_5_by_zero:
  "currentValue s = ''5'' \<Longrightarrow> operator s = None \<Longrightarrow> \<not> error s \<Longrightarrow>
     run s [Operator divide_sign, Digit ''0'', Equals] =
       \<lparr>currentValue = ''Error'', previousValue = None, operator = None,
         overwrite = True, error = True\<rparr> \<and>
     displayValue (run s [Operator divide_sign, Digit ''0'', Equals]) = ''Error'' \<and>
     run s [Operator divide_sign, Digit ''0'', Equals, Digit ''1''] =
       \<lparr>currentValue = ''1'', previousValue = None, operator = None,
         overwrite = False, error = False\<rparr>"
  by (cases "previousValue s")
    (simp_all add: handler_defs displayValue_def compute_5_div_0)

lemma run_5:
  "run initial [Digit ''5''] =
     \<lparr>currentValue = ''5'', previousValue = None, operator = None,
       overwrite = False, error = False\<rparr>"
  by (simp add: handler_defs sanitizeNumberString_def startsWith_def)

lemma reachable_5: "reachable (run initial [Digit ''5''])"
  by (rule reachable_run [OF reachable_initial]) (simp add: digit_keys_def)

text \<open>
  C4: from a state of the calculator whose entry is \<open>5\<close>, with no pending operator,
  the keys \<^verbatim>\<open>\<div> 0 =\<close> lead to the error state, which displays \<open>Error\<close>; the key \<open>1\<close>
  then clears the error and makes the entry \<open>1\<close>. (A reachable state whose entry is
  \<open>5\<close> is not the error state, lemma \<open>reachable_error_marker\<close>; lemma
  \<open>divide_5_by_zero\<close> is the same statement for every state without \<open>error\<close>.)
\<close>

theorem divide_by_zero_then_digit:
  "reachable s \<Longrightarrow> currentValue s = ''5'' \<Longrightarrow> operator s = None \<Longrightarrow>
     run s [Operator divide_sign, Digit ''0'', Equals] =
       \<lparr>currentValue = ''Error'', previousValue = None, operator = None,
         overwrite = True, error = True\<rparr> \<and>
     displayValue (run s [Operator divide_sign, Digit ''0'', Equals]) = ''Error'' \<and>
     run s [Operator divide_sign, Digit ''0'', Equals, Digit ''1''] =
       \<lparr>currentValue = ''1'', previousValue = None, operator = None,
         overwrite = False, error = False\<rparr>"
proof -
  assume r: "reachable s" and c: "currentValue s = ''5''" and o: "operator s = None"
  from reachable_error_marker [OF r] c have "\<not> error s"
    by auto
  from divide_5_by_zero [OF c o this] show ?thesis .
qed

theorem divide_by_zero_then_digit_witness:
  "reachable (run initial [Digit ''5'']) \<and>
   currentValue (run initial [Digit ''5'']) = ''5'' \<and>
   operator (run initial [Digit ''5'']) = None \<and>
   run (run initial [Digit ''5'']) [Operator divide_sign, Digit ''0'', Equals] =
     \<lparr>currentValue = ''Error'', previousValue = None, operator = None,
       overwrite = True, error = True\<rparr> \<and>
   displayValue (run (run initial [Digit ''5'']) [Operator divide_sign, Digit ''0'', Equals]) =
     ''Error'' \<and>
   run (run initial [Digit ''5'']) [Operator divide_sign, Digit ''0'', Equals, Digit ''1''] =
     \<lparr>currentValue = ''1'', previousValue = None, operator = None,
       overwrite = False, error = False\<rparr>"
proof -
  have h: "currentValue (run initial [Digit ''5'']) = ''5''"
    "operator (run initial [Digit ''5'']) = None"
    by (simp_all add: run_5)
  from divide_by_zero_then_digit [OF reachable_5 h] reachable_5 h show ?thesis
    by blast
qed

section \<open>Pending operand and pending operator\<close>

lemma pending_step:
  "(operator s \<noteq> None) = (previousValue s \<noteq> None) \<Longrightarrow>
     (operator (step s i) \<noteq> None) = (previousValue (step s i) \<noteq> None)"
  by (cases i) (auto simp: handler_defs split: option.splits)

text \<open>
  C5: in every state reachable from the initial state, the pending operator is set
  exactly when the pending operand is, and each of the six operations keeps it so.
\<close>

theorem pending_both_or_neither:
  "reachable s \<Longrightarrow>
     (operator s \<noteq> None) = (previousValue s \<noteq> None) \<and>
     (\<forall>i. (operator (step s i) \<noteq> None) = (previousValue (step s i) \<noteq> None))"
proof -
  assume "reachable s"
  then have inv: "(operator s \<noteq> None) = (previousValue s \<noteq> None)"
  proof (induction rule: reachable.induct)
    case reachable_initial
    show ?case by (simp add: initial_def)
  next
    case (reachable_step s i)
    show ?case
      by (rule pending_step [OF reachable_step.IH])
  qed
  show ?thesis
  proof (intro conjI allI)
    show "(operator s \<noteq> None) = (previousValue s \<noteq> None)"
      by (rule inv)
    show "(operator (step s i) \<noteq> None) = (previousValue (step s i) \<noteq> None)" for i
      by (rule pending_step [OF inv])
  qed
qed

theorem pending_both_or_neither_witness:
  "reachable (run initial [Digit ''5'', Operator divide_sign, Digit ''0'']) \<and>
   (operator (run initial [Digit ''5'', Operator divide_sign, Digit ''0'']) \<noteq> None) =
   (previousValue (run initial [Digit ''5'', Operator divide_sign, Digit ''0'']) \<noteq> None) \<and>
   (operator (step (run initial [Digit ''5'', Operator divide_sign, Digit ''0'']) Equals)
     \<noteq> None) =
   (previousValue (step (run initial [Digit ''5'', Operator divide_sign, Digit ''0'']) Equals)
     \<noteq> None)"
  using pending_both_or_neither [OF reachable_5_div_0] reachable_5_div_0
  by blast

section \<open>Equals twice\<close>

text \<open>
  C8, as stated: from every state without \<open>error\<close>, a second equals key changes
  nothing. With \<open>5 \<div> 0\<close> pending, the first equals key enters the error state and the
  second one resets it to the initial state.
\<close>

theorem equals_twice_after_division_by_zero:
  "reachable (run initial [Digit ''5'', Operator divide_sign, Digit ''0'']) \<and>
   \<not> error (run initial [Digit ''5'', Operator divide_sign, Digit ''0'']) \<and>
   onEquals (onEquals (run initial [Digit ''5'', Operator divide_sign, Digit ''0''])) \<noteq>
     onEquals (run initial [Digit ''5'', Operator divide_sign, Digit ''0''])"
  using reachable_5_div_0
  by (simp add: run_5_div_0 onEquals_def resetAll_def enterError_def compute_5_div_0)

text \<open>
  C8, amended: from every state without \<open>error\<close>, when the first equals key does
  not enter the error state, a second equals key changes nothing; when it does, the
  second equals key resets the state to the initial one.
\<close>

theorem equals_twice:
  "\<not> error s \<Longrightarrow>
     onEquals (onEquals s) = (if error (onEquals s) then initial else onEquals s)"
  by (auto simp: onEquals_def resetAll_def enterError_def initial_def Let_def
      split: option.splits)

theorem equals_twice_witness:
  "\<not> error \<lparr>currentValue = ''3'', previousValue = Some ''2'', operator = Some ''+'',
       overwrite = False, error = False\<rparr> \<and>
   onEquals (onEquals \<lparr>currentValue = ''3'', previousValue = Some ''2'',
       operator = Some ''+'', overwrite = False, error = False\<rparr>) =
     \<lparr>currentValue = ''5'', previousValue = None, operator = None,
       overwrite = True, error = False\<rparr>"
proof -
  have e: "\<not> error \<lparr>currentValue = ''3'', previousValue = Some ''2'',
      operator = Some ''+'', overwrite = False, error = False\<rparr>"
    by simp
  have v: "onEquals \<lparr>currentValue = ''3'', previousValue = Some ''2'',
      operator = Some ''+'', overwrite = False, error = False\<rparr> =
    \<lparr>currentValue = ''5'', previousValue = None, operator = None,
       overwrite = True, error = False\<rparr>"
    by (simp add: onEquals_def compute_2_plus_3)
  from equals_twice [OF e] e show ?thesis
    by (simp add: v)
qed

section \<open>Entry keys leave the pending operation alone\<close>

text \<open>
  C9: in every state without \<open>error\<close>, a digit key, the point and backspace leave
  the pending operand and the pending operator as they are.
\<close>

theorem entry_keys_keep_pending:
  "\<not> error s \<Longrightarrow>
     previousValue (onDigit d s) = previousValue s \<and>
     operator (onDigit d s) = operator s \<and>
     previousValue (onDecimal s) = previousValue s \<and>
     operator (onDecimal s) = operator s \<and>
     previousValue (onBackspace s) = previousValue s \<and>
     operator (onBackspace s) = operator s"
  by (simp add: onDigit_def onDecimal_def onBackspace_def)

theorem entry_keys_keep_pending_witness:
  "\<not> error \<lparr>currentValue = ''3'', previousValue = Some ''2'', operator = Some ''+'',
       overwrite = False, error = False\<rparr> \<and>
   previousValue (onDigit ''7'' \<lparr>currentValue = ''3'', previousValue = Some ''2'',
       operator = Some ''+'', overwrite = False, error = False\<rparr>) = Some ''2'' \<and>
   operator (onDigit ''7'' \<lparr>currentValue = ''3'', previousValue = Some ''2'',
       operator = Some ''+'', overwrite = False, error = False\<rparr>) = Some ''+'' \<and>
   previousValue (onDecimal \<lparr>currentValue = ''3'', previousValue = Some ''2'',
       operator = Some ''+'', overwrite = False, error = False\<rparr>) = Some ''2'' \<and>
   operator (onDecimal \<lparr>currentValue = ''3'', previousValue = Some ''2'',
       operator = Some ''+'', overwrite = False, error = False\<rparr>) = Some ''+'' \<and>
   previousValue (onBackspace \<lparr>currentValue = ''3'', previousValue = Some ''2'',
       operator = Some ''+'', overwrite = False, error = False\<rparr>) = Some ''2'' \<and>
   operator (onBackspace \<lparr>currentValue = ''3'', previousValue = Some ''2'',
       operator = Some ''+'', overwrite = False, error = False\<rparr>) = Some ''+''"
proof -
  have e: "\<not> error \<lparr>currentValue = ''3'', previousValue = Some ''2'',
      operator = Some ''+'', overwrite = False, error = False\<rparr>"
    by simp
  from entry_keys_keep_pending [OF e, of "''7''"] show ?thesis
    by simp
qed

section \<open>The results of compute\<close>

lemma parseFloat_abc: "parseFloat ''abc'' = NaN"
  by code_simp

lemma parseFloat_2: "parseFloat ''2'' = Fin 2"
  by code_simp

lemma parseFloat_1x: "parseFloat ''1x'' = Fin 1"
  by code_simp

text \<open>
  C10, as stated: for an operator sign outside the four, \<^verbatim>\<open>compute\<close> returns the
  second operand as it is. When an operand does not parse, the check for NaN comes
  first (line 42) and the result is \<open>0\<close>.
\<close>

theorem compute_unknown_operator_unparsed:
  "''%'' \<notin> set operator_keys \<and> compute ''abc'' ''1'' ''%'' \<noteq> ''1''"
  by (simp add: operator_keys_def times_sign_def divide_sign_def compute_def
      parseFloat_abc is_nan_def)

lemma fl_not_NaN: "fl x \<noteq> NaN"
  by (simp add: fl_def Let_def)

lemma js_neg_NaN: "(js_neg v = NaN) = (v = NaN)"
  by (cases v) simp_all

lemma parse_unsigned_starts:
  "(case parse_unsigned u of None \<Rightarrow> NaN | Some (v, r) \<Rightarrow> v) = NaN \<longleftrightarrow> \<not> starts_unsigned u"
  by (cases u rule: starts_unsigned.cases)
    (auto simp: parse_unsigned_def Let_def fl_not_NaN split: prod.splits if_splits)

lemma parse_unsigned_neg_starts:
  "(case (case parse_unsigned u of None \<Rightarrow> None | Some (v, r) \<Rightarrow> Some (js_neg v, r)) of
      None \<Rightarrow> NaN | Some (v, r) \<Rightarrow> v) = NaN \<longleftrightarrow> \<not> starts_unsigned u"
  by (cases u rule: starts_unsigned.cases)
    (auto simp: parse_unsigned_def Let_def fl_not_NaN js_neg_NaN split: prod.splits if_splits)

text \<open>\<^verbatim>\<open>parseFloat\<close> gives NaN exactly for the strings that do not start a number.\<close>

lemma parseFloat_NaN_iff: "is_nan (parseFloat s) = (\<not> starts_number s)"
  by (simp add: is_nan_def parseFloat_def parse_decimal_def starts_number_def Let_def
      parse_unsigned_starts parse_unsigned_neg_starts)

lemma compute_js_strings: "compute_js (Str a) (Str b) (Str op) = Inr (Str (compute a b op))"
  by (simp add: compute_js_def compute_def Let_def)

text \<open>
  With other arguments \<^verbatim>\<open>compute\<close> can throw, and can return a value that is not a
  string.
\<close>

lemma compute_js_symbol: "compute_js Symbol b op = Inl TypeError"
  by (simp add: compute_js_def)

lemma parseFloat_1: "parseFloat ''1'' = Fin 1"
  by code_simp

lemma number_to_string_1_2:
  "number_to_string (Fin 1) = ''1''" "number_to_string (Fin 2) = ''2''"
  by code_simp+

lemma compute_js_number_operand:
  "compute_js (Num (Fin 1)) (Num (Fin 2)) (Str ''%'') = Inr (Num (Fin 2))"
  by (simp add: compute_js_def Let_def times_sign_def divide_sign_def number_to_string_1_2
      parseFloat_1 parseFloat_2 is_nan_def del: number_to_string.simps)

lemma compute_NaN:
  "is_nan (parseFloat a) \<or> is_nan (parseFloat b) \<Longrightarrow> compute a b op = ''0''"
  by (simp add: compute_def Let_def)

lemma compute_default:
  "\<not> is_nan (parseFloat a) \<Longrightarrow> \<not> is_nan (parseFloat b) \<Longrightarrow> op \<notin> set operator_keys \<Longrightarrow>
     compute a b op = b"
  by (simp add: compute_def Let_def operator_keys_def)

text \<open>
  C10, amended: for all operand strings and every operator string, \<^verbatim>\<open>compute\<close> throws
  no exception and returns a string; an operand fails to parse as a number exactly when
  it does not start a number (after leading white space and an optional sign:
  \<^verbatim>\<open>Infinity\<close>, a digit, or a point and a digit); when an operand fails to parse, the
  result is \<open>0\<close>, whatever the operator; when both parse and the operator is none of
  the four signs, the result is the second operand string, unchanged.
\<close>

theorem compute_on_strings:
  "compute_js (Str aStr) (Str bStr) (Str op) = Inr (Str (compute aStr bStr op)) \<and>
   is_nan (parseFloat aStr) = (\<not> starts_number aStr) \<and>
   (\<not> starts_number aStr \<or> \<not> starts_number bStr \<longrightarrow> compute aStr bStr op = ''0'') \<and>
   (starts_number aStr \<and> starts_number bStr \<and> op \<notin> set operator_keys \<longrightarrow>
      compute aStr bStr op = bStr)"
  using compute_NaN [of aStr bStr op] compute_default [of aStr bStr op]
  by (simp add: compute_js_strings parseFloat_NaN_iff)

theorem compute_on_strings_witness:
  "compute_js (Str ''abc'') (Str ''1'') (Str ''+'') = Inr (Str ''0'') \<and>
   \<not> starts_number ''abc'' \<and> is_nan (parseFloat ''abc'') \<and>
   compute ''abc'' ''1'' ''+'' = ''0'' \<and>
   starts_number ''2'' \<and> starts_number ''1x'' \<and> ''%'' \<notin> set operator_keys \<and>
   compute ''2'' ''1x'' ''%'' = ''1x'' \<and>
   compute_js (Str ''2'') (Str ''1x'') (Str ''%'') = Inr (Str ''1x'')"
proof -
  have a: "\<not> starts_number ''abc''"
    by (simp add: starts_number_def is_ws_def is_digit_def)
  have b: "starts_number ''2''" "starts_number ''1x''"
    by (simp_all add: starts_number_def is_ws_def is_digit_def)
  have c: "''%'' \<notin> set operator_keys"
    by (simp add: operator_keys_def times_sign_def divide_sign_def)
  from compute_on_strings [of "''abc''" "''1''" "''+''"]
  have 1: "compute_js (Str ''abc'') (Str ''1'') (Str ''+'') = Inr (Str ''0'')"
    "is_nan (parseFloat ''abc'')" "compute ''abc'' ''1'' ''+'' = ''0''"
    using a by simp_all
  from compute_on_strings [of "''2''" "''1x''" "''%''"]
  have 2: "compute ''2'' ''1x'' ''%'' = ''1x''"
    "compute_js (Str ''2'') (Str ''1x'') (Str ''%'') = Inr (Str ''1x'')"
    using b c by simp_all
  from 1 2 a b c show ?thesis
    by blast
qed

section \<open>At most one decimal point\<close>

lemma includes_dot: "includes_str s ''.'' = (CHR ''.'' \<in> set s)"
proof
  assume "includes_str s ''.''"
  then obtain i where i: "take 1 (drop i s) = ''.''"
    by (auto simp: includes_str_def)
  then have "drop i s \<noteq> []" by auto
  then obtain c r where d: "drop i s = c # r" by (cases "drop i s") auto
  with i have "c = CHR ''.''" by simp
  with d have "CHR ''.'' \<in> set (drop i s)" by simp
  then show "CHR ''.'' \<in> set s" by (rule in_set_dropD)
next
  assume "CHR ''.'' \<in> set s"
  then obtain i where i: "i < length s" "s ! i = CHR ''.''"
    by (auto simp: in_set_conv_nth)
  then have "drop i s = CHR ''.'' # drop (Suc i) s"
    by (simp add: Cons_nth_drop_Suc [symmetric])
  then have "take 1 (drop i s) = ''.''" by simp
  with i show "includes_str s ''.''"
    by (auto simp: includes_str_def intro!: bexI [of _ i])
qed

lemma sanitize_canonical: "canonical str \<Longrightarrow> sanitizeNumberString str = str"
  by (auto simp: canonical_def sanitizeNumberString_def)

lemma digit_key_cases:
  "d \<in> set digit_keys \<Longrightarrow> length d = 1 \<and> CHR ''.'' \<notin> set d \<and> canonical d"
  by (auto simp: digit_keys_def canonical_def startsWith_def)

lemma canonical_append: "canonical v \<Longrightarrow> v \<noteq> ''0'' \<Longrightarrow> canonical (v @ d)"
  by (cases v; cases "tl v") (auto simp: canonical_def startsWith_def)

lemma canonical_zero_point: "canonical ''0.''" "canonical ''0''" "canonical ''Error''"
  by (simp_all add: canonical_def startsWith_def)

lemma entry_step:
  assumes "entry_key k" "\<not> error s" "\<not> overwrite s" "canonical (currentValue s)"
    "count_list (currentValue s) CHR ''.'' \<le> 1"
  shows "\<not> error (step s k) \<and> \<not> overwrite (step s k) \<and> canonical (currentValue (step s k)) \<and>
    count_list (currentValue (step s k)) CHR ''.'' \<le> 1"
proof (cases k)
  case (Digit d)
  with assms(1) have d: "length d = 1" "CHR ''.'' \<notin> set d" "canonical d"
    by (simp_all add: digit_key_cases)
  let ?next = "if currentValue s = ''0'' then d else currentValue s @ d"
  have c: "canonical ?next"
    using d assms(4) by (simp add: canonical_append)
  have n: "count_list ?next CHR ''.'' \<le> 1"
    using d assms(5) by (simp add: count_list_0_iff)
  show ?thesis
    using assms(2,3) c n Digit by (simp add: onDigit_def Let_def sanitize_canonical)
next
  case Decimal
  show ?thesis
  proof (cases "CHR ''.'' \<in> set (currentValue s)")
    case True
    with assms Decimal show ?thesis
      by (simp add: onDecimal_def includes_dot)
  next
    case False
    then have "count_list (currentValue s @ ''.'') CHR ''.'' \<le> 1"
      by (simp add: count_list_0_iff)
    moreover have "canonical (currentValue s @ ''.'')"
      using assms(4) by (cases "currentValue s = ''0''") (simp_all add: canonical_append canonical_zero_point)
    ultimately show ?thesis
      using assms Decimal False by (simp add: onDecimal_def includes_dot)
  qed
qed (use assms(1) in simp_all)

lemma entry_run:
  "list_all entry_key ks \<Longrightarrow> \<not> error s \<Longrightarrow> \<not> overwrite s \<Longrightarrow> canonical (currentValue s) \<Longrightarrow>
   count_list (currentValue s) CHR ''.'' \<le> 1 \<Longrightarrow>
   \<not> error (run s ks) \<and> \<not> overwrite (run s ks) \<and> canonical (currentValue (run s ks)) \<and>
    count_list (currentValue (run s ks)) CHR ''.'' \<le> 1"
proof (induction ks arbitrary: s)
  case Nil
  then show ?case by (simp add: run_def)
next
  case (Cons k ks)
  from Cons.prems have k: "entry_key k" and ks: "list_all entry_key ks" by simp_all
  from entry_step [OF k Cons.prems(2-5)] Cons.IH [OF ks, of "step s k"]
  show ?case by (simp add: run_def)
qed

text \<open>
  C6: after the clear key, whatever digits and points are typed, the entry never holds
  more than one point, and the point key does nothing when the entry already holds
  one.
\<close>

theorem entry_has_one_point:
  "list_all entry_key ks \<Longrightarrow>
     count_list (currentValue (run (onClear s) ks)) CHR ''.'' \<le> 1 \<and>
     (includes_str (currentValue (run (onClear s) ks)) ''.'' \<longrightarrow>
        onDecimal (run (onClear s) ks) = run (onClear s) ks)"
proof -
  assume ks: "list_all entry_key ks"
  have "\<not> error (onClear s)" "\<not> overwrite (onClear s)" "canonical (currentValue (onClear s))"
    "count_list (currentValue (onClear s)) CHR ''.'' \<le> 1"
    by (simp_all add: onClear_def resetAll_def canonical_zero_point)
  from entry_run [OF ks this] show ?thesis
    by (simp add: onDecimal_def)
qed

theorem entry_has_one_point_witness:
  "list_all entry_key [Digit ''1'', Decimal, Digit ''5'', Decimal] \<and>
   count_list (currentValue (run (onClear initial) [Digit ''1'', Decimal, Digit ''5'',
     Decimal])) CHR ''.'' \<le> 1 \<and>
   includes_str (currentValue (run (onClear initial) [Digit ''1'', Decimal, Digit ''5'',
     Decimal])) ''.'' \<and>
   onDecimal (run (onClear initial) [Digit ''1'', Decimal, Digit ''5'', Decimal]) =
     run (onClear initial) [Digit ''1'', Decimal, Digit ''5'', Decimal]"
proof -
  have k: "list_all entry_key [Digit ''1'', Decimal, Digit ''5'', Decimal]"
    by (simp add: digit_keys_def)
  have v: "currentValue (run (onClear initial) [Digit ''1'', Decimal, Digit ''5'', Decimal]) =
      ''1.5''"
    by (simp add: handler_defs sanitizeNumberString_def startsWith_def includes_dot)
  have i: "includes_str (currentValue (run (onClear initial) [Digit ''1'', Decimal,
      Digit ''5'', Decimal])) ''.''"
    by (simp add: v includes_dot)
  from entry_has_one_point [OF k, of initial] k i show ?thesis
    by blast
qed

section \<open>The displayed value\<close>

subsection \<open>The digits of a number start with a digit other than zero\<close>

lemma ipow_powi: "ipow b k = of_nat b powi k"
  by (simp add: ipow_def power_int_def inverse_eq_divide power_one_over)

lemma ipow_pos: "0 < b \<Longrightarrow> 0 < ipow b k"
  by (simp add: ipow_powi zero_less_power_int)

lemma ipow_mono: "1 \<le> b \<Longrightarrow> i \<le> j \<Longrightarrow> ipow b i \<le> ipow b j"
  by (simp add: ipow_powi power_int_increasing)

lemma floor_exp_le:
  assumes "0 < x" "1 < b"
  shows "ipow b (floor_exp b x) \<le> x"
proof -
  obtain p q where pq: "quotient_of x = (p, q)" by (cases "quotient_of x")
  then have q: "0 < q" and x: "x = of_int p / of_int q"
    by (simp_all add: quotient_of_denom_pos quotient_of_div)
  from assms(1) x q have p: "0 < p"
    by (simp add: zero_less_divide_iff)
  let ?fp = "floorlog b (nat p)" and ?fq = "floorlog b (nat q)"
  have bp: "b ^ (?fp - 1) \<le> nat p" and bq: "nat q < b ^ ?fq"
    using floorlog_bounds [of "nat p" b] floorlog_bounds [of "nat q" b] p q assms(2) by simp_all
  have fp: "0 < ?fp" using p assms(2) by (simp add: floorlog_def)
  have "(of_nat b :: rat) powi (int ?fp - int ?fq - 1) = of_nat b powi (int (?fp - 1) - int ?fq)"
    using fp by (simp add: of_nat_diff algebra_simps)
  also have "\<dots> = of_nat b ^ (?fp - 1) / of_nat b ^ ?fq"
    using assms(2) by (simp add: power_int_diff)
  also have "\<dots> \<le> of_nat (nat p) / of_nat (nat q)"
  proof (rule frac_le)
    show "(0::rat) \<le> of_nat (nat p)" by simp
    show "(of_nat b :: rat) ^ (?fp - 1) \<le> of_nat (nat p)"
      using bp by (metis of_nat_le_iff of_nat_power)
    show "(0::rat) < of_nat (nat q)" using q by simp
    show "(of_nat (nat q) :: rat) \<le> of_nat b ^ ?fq"
      using bq by (metis less_imp_le of_nat_le_iff of_nat_power)
  qed
  also have "\<dots> = x" using x p q by simp
  finally have low: "ipow b (int ?fp - int ?fq - 1) \<le> x"
    by (simp add: ipow_powi)
  show ?thesis
    using low pq by (simp add: floor_exp_def Let_def)
qed

lemma digits_of_ne: "digits_of n \<noteq> []"
  by (subst digits_of.simps) simp

lemma digit_char_nonzero: "0 < n \<Longrightarrow> n < 10 \<Longrightarrow> digit_char n \<noteq> CHR ''0''"
proof
  assume n: "0 < n" "n < 10" and "digit_char n = CHR ''0''"
  then have "(of_char (char_of (48 + n)) :: nat) = of_char CHR ''0''"
    by (simp add: digit_char_def)
  then have "(48 + n) mod 256 = 48"
    by (simp add: of_char_of)
  with n show False by simp
qed

lemma digits_of_hd: "0 < n \<Longrightarrow> hd (digits_of n) \<noteq> CHR ''0''"
proof (induction n rule: digits_of.induct)
  case (1 n)
  show ?case
  proof (cases "n < 10")
    case True
    with 1 show ?thesis
      by (subst digits_of.simps) (simp add: digit_char_nonzero)
  next
    case False
    then have "0 < n div 10" by simp
    with 1 False have "hd (digits_of (n div 10)) \<noteq> CHR ''0''" by simp
    with False show ?thesis
      by (subst digits_of.simps) (simp add: digits_of_ne)
  qed
qed

lemma shortest_pos:
  "0 < x \<Longrightarrow> ipow 10 (n0 - 1) \<le> x \<Longrightarrow> 1 \<le> k \<Longrightarrow> 0 < snd (shortest x n0 k)"
proof (induction x n0 k rule: shortest.induct)
  case (1 x n0 k)
  let ?sc = "ipow 10 (n0 - int k)"
  have sc: "0 < ?sc" by (simp add: ipow_pos)
  have "?sc \<le> ipow 10 (n0 - 1)" using 1(4) by (intro ipow_mono) simp_all
  with 1(3) have "?sc \<le> x" by simp
  with sc have "1 \<le> x / ?sc" by (simp add: le_divide_eq)
  then have "1 \<le> \<lfloor>x / ?sc\<rfloor>" by simp
  then have lo: "0 < nat \<lfloor>x / ?sc\<rfloor>" by simp
  show ?case
    apply (subst shortest.simps)
    using lo 1
    apply (simp add: Let_def)
    done
qed


subsection \<open>Every entry the calculator holds is canonical\<close>

lemma canonical_hd: "hd s \<noteq> CHR ''0'' \<Longrightarrow> s \<noteq> [] \<Longrightarrow> canonical s"
  by (cases s) (simp_all add: canonical_def startsWith_def)

lemma canonical_zero_point_Cons: "canonical (CHR ''0'' # CHR ''.'' # r)"
  by (simp add: canonical_def startsWith_def)

lemma canonical_butlast: "canonical v \<Longrightarrow> 1 < length v \<Longrightarrow> canonical (butlast v)"
proof -
  assume c: "canonical v" and l: "1 < length v"
  then obtain a b r where v: "v = a # b # r"
    by (cases v; cases "tl v") auto
  show ?thesis
  proof (cases "a = CHR ''0''")
    case False
    with v show ?thesis by (simp add: canonical_hd)
  next
    case True
    with c v have "b = CHR ''.''"
      by (simp add: canonical_def startsWith_def)
    with True v show ?thesis
      by (cases r) (simp_all add: canonical_def startsWith_def)
  qed
qed

lemma canonical_number_pos:
  assumes "0 < x"
  shows "canonical (number_to_string_pos x)"
proof -
  obtain n s where ns: "shortest x (floor_exp 10 x + 1) 1 = (n, s)"
    by (cases "shortest x (floor_exp 10 x + 1) 1")
  have "ipow 10 (floor_exp 10 x + 1 - 1) \<le> x"
    using floor_exp_le [OF assms, of 10] by simp
  from shortest_pos [OF assms this, of 1] ns have s: "0 < s" by simp
  let ?ds = "digits_of s"
  have ne: "?ds \<noteq> []" by (rule digits_of_ne)
  have h: "hd ?ds \<noteq> CHR ''0''" using s by (rule digits_of_hd)
  have A: "canonical (?ds @ r)" for r
    using ne h by (intro canonical_hd) simp_all
  have B: "canonical (take (nat n) ?ds @ r)" if "0 < n" for r
    using ne h that by (intro canonical_hd) (simp_all add: hd_append)
  have D: "canonical (hd ?ds # r)" for r
    using h by (intro canonical_hd) simp_all
  show ?thesis
    unfolding number_to_string_pos_def ns
    by (simp add: Let_def A B D canonical_zero_point_Cons)
qed

lemma canonical_number_to_string: "canonical (number_to_string a)"
proof (cases a)
  case (Fin q)
  then show ?thesis
    by (simp add: canonical_number_pos canonical_zero_point canonical_hd)
qed (simp_all add: canonical_def startsWith_def)

lemma canonical_compute: "canonical b \<Longrightarrow> canonical (compute a b op)"
  by (simp add: compute_def Let_def canonical_number_to_string canonical_zero_point)

lemma reachable_canonical: "reachable s \<Longrightarrow> canonical (currentValue s)"
proof (induction rule: reachable.induct)
  case reachable_initial
  show ?case by (simp add: initial_def canonical_zero_point)
next
  case (reachable_step s i)
  note c = reachable_step.IH
  show ?case
  proof (cases i)
    case (Digit d)
    with reachable_step.hyps have d: "canonical d" by (simp add: digit_key_cases)
    have "canonical (if currentValue s = ''0'' then d else currentValue s @ d)"
      using c d by (simp add: canonical_append)
    with d Digit show ?thesis
      by (simp add: onDigit_def Let_def sanitize_canonical)
  next
    case Decimal
    have "canonical (currentValue s @ ''.'')"
      using c by (cases "currentValue s = ''0''") (simp_all add: canonical_append canonical_zero_point)
    with c Decimal show ?thesis
      by (simp add: onDecimal_def Let_def canonical_zero_point)
  next
    case (Operator op)
    with c show ?thesis
      by (auto simp: onOperator_def enterError_def Let_def canonical_compute canonical_zero_point
          split: option.splits)
  next
    case Equals
    with c show ?thesis
      by (auto simp: onEquals_def enterError_def resetAll_def Let_def canonical_compute
          canonical_zero_point split: option.splits)
  next
    case Clear
    then show ?thesis by (simp add: onClear_def resetAll_def canonical_zero_point)
  next
    case Backspace
    with c show ?thesis
      by (auto simp: onBackspace_def resetAll_def Let_def canonical_butlast canonical_zero_point)
  qed
qed

text \<open>
  In a reachable state the entry is canonical, so the display of an entry of at most 14
  characters is the entry.
\<close>

lemma display_of_reachable_entry:
  "reachable s \<Longrightarrow> \<not> error s \<Longrightarrow> \<not> endsWith (currentValue s) ''.'' \<Longrightarrow>
   length (currentValue s) \<le> 14 \<Longrightarrow>
     displayValue s = sanitizeNumberString (currentValue s)"
  by (simp add: displayValue_def Let_def sanitize_canonical reachable_canonical)

subsection \<open>An entry that normalisation makes longer\<close>

lemma floor_exp_less:
  assumes "0 < x" "1 < b"
  shows "x < ipow b (floor_exp b x + 1)"
proof -
  obtain p q where pq: "quotient_of x = (p, q)" by (cases "quotient_of x")
  then have q: "0 < q" and x: "x = of_int p / of_int q"
    by (simp_all add: quotient_of_denom_pos quotient_of_div)
  from assms(1) x q have p: "0 < p"
    by (simp add: zero_less_divide_iff)
  let ?fp = "floorlog b (nat p)" and ?fq = "floorlog b (nat q)"
  have bp: "nat p < b ^ ?fp" and bq: "b ^ (?fq - 1) \<le> nat q"
    using floorlog_bounds [of "nat p" b] floorlog_bounds [of "nat q" b] p q assms(2) by simp_all
  have fq: "0 < ?fq" using q assms(2) by (simp add: floorlog_def)
  have "x = of_nat (nat p) / of_nat (nat q)" using x p q by simp
  also have "\<dots> < of_nat b ^ ?fp / of_nat b ^ (?fq - 1)"
  proof (rule frac_less)
    show "(0::rat) \<le> of_nat (nat p)" by simp
    show "(of_nat (nat p) :: rat) < of_nat b ^ ?fp"
      using bp by (metis of_nat_less_iff of_nat_power)
    show "(0::rat) < of_nat b ^ (?fq - 1)" using assms(2) by simp
    show "(of_nat b :: rat) ^ (?fq - 1) \<le> of_nat (nat q)"
      using bq by (metis of_nat_le_iff of_nat_power)
  qed
  also have "\<dots> = of_nat b powi (int ?fp - int (?fq - 1))"
    using assms(2) by (simp add: power_int_diff)
  also have "\<dots> = of_nat b powi (int ?fp - int ?fq + 1)"
    using fq by (simp add: of_nat_diff algebra_simps)
  finally have up: "x < ipow b (int ?fp - int ?fq + 1)"
    by (simp add: ipow_powi)
  show ?thesis
    using up pq by (simp add: floor_exp_def Let_def)
qed

lemma floor_exp_eqI:
  assumes "0 < x" "1 < b" "ipow b e \<le> x" "x < ipow b (e + 1)"
  shows "floor_exp b x = e"
proof (rule antisym)
  have b: "1 \<le> b" using assms(2) by simp
  show "floor_exp b x \<le> e"
  proof (rule ccontr)
    assume "\<not> floor_exp b x \<le> e"
    then have "e + 1 \<le> floor_exp b x" by simp
    from ipow_mono [OF b this] floor_exp_le [OF assms(1,2)] assms(4) show False by simp
  qed
  show "e \<le> floor_exp b x"
  proof (rule ccontr)
    assume "\<not> e \<le> floor_exp b x"
    then have "floor_exp b x + 1 \<le> e" by simp
    from ipow_mono [OF b this] floor_exp_less [OF assms(1,2)] assms(3) show False by simp
  qed
qed

text \<open>The number \<open>1e14\<close>: its rounding, its string and its ten significant digits.\<close>

lemma floor_exp_2_1e14: "floor_exp 2 100000000000000 = 46"
  by (rule floor_exp_eqI) (simp_all add: ipow_def)

lemma floor_exp_10_1e14: "floor_exp 10 100000000000000 = 14"
  by (rule floor_exp_eqI) (simp_all add: ipow_def)

lemma floor_exp_2_2e14: "floor_exp 2 200000000000000 = 47"
  by (rule floor_exp_eqI) (simp_all add: ipow_def)

lemma fl_1e14: "fl 100000000000000 = Fin 100000000000000"
  by (simp add: fl_def floor_exp_2_1e14 Let_def ipow_def round_half_even_def)

lemma fl_2e14: "fl 200000000000000 = Fin 200000000000000"
  by (simp add: fl_def floor_exp_2_2e14 Let_def ipow_def round_half_even_def)

lemma shortest_1e14: "shortest 100000000000000 15 (Suc 0) = (15, Suc 0)"
  by (subst shortest.simps) (simp add: Let_def ipow_def fl_1e14 fl_2e14)

lemma digit_char_values:
  "digit_char 0 = CHR ''0''" "digit_char (Suc 0) = CHR ''1''" "digit_char 2 = CHR ''2''"
  "digit_char 3 = CHR ''3''" "digit_char 4 = CHR ''4''" "digit_char 5 = CHR ''5''"
  "digit_char 6 = CHR ''6''" "digit_char 7 = CHR ''7''" "digit_char 8 = CHR ''8''"
  "digit_char 9 = CHR ''9''"
  by code_simp+

lemma digits_of_1: "digits_of (Suc 0) = ''1''"
  by (subst digits_of.simps) (simp add: digit_char_values)

lemma digits_of_14: "digits_of 14 = ''14''"
  by (simp add: digits_of.simps digit_char_values)

lemma digits_of_1e9: "digits_of 1000000000 = ''1000000000''"
  by (simp add: digits_of.simps digit_char_values)

lemma replicate_14: "replicate 14 CHR ''0'' = ''00000000000000''"
  by code_simp

lemma number_to_string_pos_1e14: "number_to_string_pos 100000000000000 = ''100000000000000''"
  by (simp add: number_to_string_pos_def floor_exp_10_1e14 shortest_1e14 digits_of_1
      replicate_14 Let_def)

lemma floor_half: "\<lfloor>(2000000001::rat) / 2\<rfloor> = 1000000000"
  by (rule floor_unique) simp_all

lemma to_precision_1e14: "to_precision (Fin 100000000000000) 10 = ''1.000000000e+14''"
  by (simp add: to_precision_def is_nan_def is_inf_def floor_exp_10_1e14 ipow_def floor_half
      digits_of_1e9 digits_of_14 Let_def)

lemma strip_zeros_1e14: "strip_zeros ''1.000000000e+14'' = ''1.000000000e+14''"
  by (simp add: strip_zeros_def)

lemma is_ws_digits: "\<not> is_ws CHR ''0''" "\<not> is_ws CHR ''1''" "\<not> is_ws CHR ''4''"
  by (simp_all add: is_ws_def)

lemma is_digit_chars: "is_digit CHR ''0''" "is_digit CHR ''1''" "is_digit CHR ''4''"
  "\<not> is_digit CHR ''e''"
  by (simp_all add: is_digit_def)

lemma js_Number_01e14: "js_Number ''01e14'' = Fin 100000000000000"
  by (simp add: js_Number_def is_ws_digits is_digit_chars parse_decimal_def parse_unsigned_def
      parse_exponent_def nat_of_digits_def digit_value_def Let_def ipow_def fl_1e14)

lemma js_Number_1e14: "js_Number ''100000000000000'' = Fin 100000000000000"
  by (simp add: js_Number_def is_ws_digits is_digit_chars parse_decimal_def parse_unsigned_def
      parse_exponent_def nat_of_digits_def digit_value_def Let_def ipow_def fl_1e14)

lemma sanitize_01e14: "sanitizeNumberString ''01e14'' = ''100000000000000''"
  by (simp add: sanitizeNumberString_def startsWith_def js_Number_01e14
      number_to_string_pos_1e14)

lemma sanitize_007: "sanitizeNumberString ''007'' = ''7''"
  by code_simp

text \<open>
  C7, as stated: in every state without \<open>error\<close> whose entry does not end in a point
  and has at most 14 characters, the displayed value is the normalised entry. The entry
  \<open>01e14\<close> has five characters; normalised it is \<open>100000000000000\<close>, of fifteen
  characters, so \<^verbatim>\<open>displayValue\<close> shows \<open>1.000000000e+14\<close>: the test of line 234 is
  on the normalised string.
\<close>

theorem display_of_entry_01e14:
  "\<not> error \<lparr>currentValue = ''01e14'', previousValue = None, operator = None,
      overwrite = False, error = False\<rparr> \<and>
   \<not> endsWith (currentValue \<lparr>currentValue = ''01e14'', previousValue = None, operator = None,
      overwrite = False, error = False\<rparr>) ''.'' \<and>
   length (currentValue \<lparr>currentValue = ''01e14'', previousValue = None, operator = None,
      overwrite = False, error = False\<rparr>) \<le> 14 \<and>
   sanitizeNumberString (currentValue \<lparr>currentValue = ''01e14'', previousValue = None,
      operator = None, overwrite = False, error = False\<rparr>) = ''100000000000000'' \<and>
   displayValue \<lparr>currentValue = ''01e14'', previousValue = None, operator = None,
      overwrite = False, error = False\<rparr> = ''1.000000000e+14'' \<and>
   displayValue \<lparr>currentValue = ''01e14'', previousValue = None, operator = None,
      overwrite = False, error = False\<rparr> \<noteq>
     sanitizeNumberString (currentValue \<lparr>currentValue = ''01e14'', previousValue = None,
       operator = None, overwrite = False, error = False\<rparr>)"
  by (simp add: displayValue_def endsWith_def sanitize_01e14 js_Number_1e14 to_precision_1e14
      strip_zeros_1e14 is_nan_def Let_def)

text \<open>
  C7, amended: in every state without \<open>error\<close> whose entry does not end in a point
  and whose normalised entry has at most 14 characters, the displayed value is the
  normalised entry.
\<close>

theorem display_of_short_normalised_entry:
  "\<not> error s \<Longrightarrow> \<not> endsWith (currentValue s) ''.'' \<Longrightarrow>
   length (sanitizeNumberString (currentValue s)) \<le> 14 \<Longrightarrow>
     displayValue s = sanitizeNumberString (currentValue s)"
  by (simp add: displayValue_def Let_def)

theorem display_of_short_normalised_entry_witness:
  "\<not> error \<lparr>currentValue = ''007'', previousValue = None, operator = None,
      overwrite = False, error = False\<rparr> \<and>
   \<not> endsWith (currentValue \<lparr>currentValue = ''007'', previousValue = None, operator = None,
      overwrite = False, error = False\<rparr>) ''.'' \<and>
   length (sanitizeNumberString (currentValue \<lparr>currentValue = ''007'', previousValue = None,
      operator = None, overwrite = False, error = False\<rparr>)) \<le> 14 \<and>
   displayValue \<lparr>currentValue = ''007'', previousValue = None, operator = None,
      overwrite = False, error = False\<rparr> = ''7''"
proof -
  have h: "\<not> error \<lparr>currentValue = ''007'', previousValue = None, operator = None,
      overwrite = False, error = False\<rparr>"
    "\<not> endsWith (currentValue \<lparr>currentValue = ''007'', previousValue = None, operator = None,
      overwrite = False, error = False\<rparr>) ''.''"
    "length (sanitizeNumberString (currentValue \<lparr>currentValue = ''007'', previousValue = None,
      operator = None, overwrite = False, error = False\<rparr>)) \<le> 14"
    by (simp_all add: endsWith_def sanitize_007)
  have v: "sanitizeNumberString (currentValue \<lparr>currentValue = ''007'', previousValue = None,
      operator = None, overwrite = False, error = False\<rparr>) = ''7''"
    by (simp add: sanitize_007)
  from display_of_short_normalised_entry [OF h] h v show ?thesis
    by metis
qed

end
